theory Spec2Isabelle
  imports Complex_Main "HOL-Library.Word"
begin

section \<open>Data model of \<open>NewMultirotorDynamics.hpp\<close>\<close>

text \<open>
  The class \<open>MultirotorDynamics\<close> is embedded with explicit state passing. A C++
  \<open>double\<close> is idealised as a \<^typ>\<open>real\<close>: rounding, infinities and NaN are outside
  the model, so \<open>cos\<close> and \<open>sin\<close> of \<open>math.h\<close> are the real functions. The arrays
  \<open>double position[3]\<close> and the like are triples; the state vector \<open>_x[12]\<close> and the
  buffer \<open>_omegas\<close> are lists that are written by index. A division by a constant
  that is zero gives an infinity or NaN in C++ and 0 in HOL; every evaluation below is at
  a vehicle whose mass and inertias are positive.
\<close>

type_synonym vec3 = "real \<times> real \<times> real"

text \<open>
  The pure virtual methods that a vehicle subclass supplies: the constants
  \<open>b()\<close>, \<open>d()\<close>, \<open>m()\<close>, \<open>l()\<close>, \<open>Ix()\<close>, \<open>Iy()\<close>, \<open>Iz()\<close>, \<open>Jr()\<close>,
  \<open>maxrpm()\<close> (an \<open>unsigned int\<close>), and the mixers \<open>u2\<close>, \<open>u3\<close>, \<open>u4\<close>, \<open>omega\<close>,
  which receive the pointer to the speed buffer and are taken to be functions of its
  contents. No subclass is part of the source, so the vehicle is a parameter.
\<close>

record vehicle =
  b :: real
  d :: real
  m :: real
  l :: real
  Ix :: real
  Iy :: real
  Iz :: real
  Jr :: real
  maxrpm :: "32 word"
  u2 :: "real list \<Rightarrow> real"
  u3 :: "real list \<Rightarrow> real"
  u4 :: "real list \<Rightarrow> real"
  omega :: "real list \<Rightarrow> real"

text \<open>
  The data members. A leading underscore is not an Isabelle identifier, so the member
  \<open>_x\<close> is the field \<open>x_vec\<close>, \<open>_nmotors\<close> is \<open>nmotors\<close>, \<open>_omegas\<close> is \<open>omegas\<close>,
  \<open>_airborne\<close> is \<open>airborne\<close>, and \<open>_U1\<close> .. \<open>_Omega\<close> are \<open>U1\<close> .. \<open>Omega\<close>.
\<close>

record MultirotorDynamics =
  x_vec :: "real list"
  nmotors :: int
  omegas :: "real list"
  airborne :: bool
  U1 :: real
  U2 :: real
  U3 :: real
  U4 :: real
  Omega :: real

text \<open>Universal constants: \<open>g = 9.80665\<close> and \<open>pi = 3.14159\<close>, as written in the source.\<close>

definition g :: real where
  "g = 980665 / 100000"

definition pi_c :: real where
  "pi_c = 314159 / 100000"

text \<open>
  \<open>double x(int j) { return _x[j-1]; }\<close>: the 1-based read of the state vector. Every
  call site passes a literal between 2 and 12.
\<close>

definition x :: "MultirotorDynamics \<Rightarrow> nat \<Rightarrow> real" where
  "x s j = x_vec s ! (j - 1)"

text \<open>The assignment \<open>_x[i] = e\<close>.\<close>

definition assign_x :: "nat \<Rightarrow> real \<Rightarrow> MultirotorDynamics \<Rightarrow> MultirotorDynamics" where
  "assign_x i e s = s\<lparr>x_vec := (x_vec s)[i := e]\<rparr>"

subsection \<open>Construction\<close>

text \<open>
  The constructor \<open>MultirotorDynamics(int nmotors)\<close> only allocates
  \<open>new double[nmotors]\<close>. The member \<open>_nmotors\<close> has no initialiser and is assigned
  nowhere in the class (it is private, so a subclass cannot assign it either); its value
  after construction is indeterminate, and so are the contents of the fresh buffer. Both
  are parameters of the model: \<open>junk_n\<close> is whatever \<open>_nmotors\<close> holds and \<open>junk_buf\<close>
  the contents of the allocated memory. The members with default initialisers
  (\<open>_x = {0}\<close>, \<open>_airborne = false\<close>, \<open>_U1 = 0\<close>, ...) get those.
\<close>

definition new_MultirotorDynamics ::
  "int \<Rightarrow> int \<Rightarrow> (nat \<Rightarrow> real) \<Rightarrow> MultirotorDynamics" where
  "new_MultirotorDynamics n junk_n junk_buf =
     \<lparr>x_vec = replicate 12 0,
      nmotors = junk_n,
      omegas = map junk_buf [0..<nat n],
      airborne = False,
      U1 = 0, U2 = 0, U3 = 0, U4 = 0, Omega = 0\<rparr>"

subsection \<open>\<open>init\<close>\<close>

text \<open>
  \<open>init\<close> zeroes the twelve entries in a loop, writes the pose into the even slots
  and stores the flag.
\<close>

definition init :: "vec3 \<Rightarrow> vec3 \<Rightarrow> bool \<Rightarrow> MultirotorDynamics \<Rightarrow> MultirotorDynamics" where
  "init position rotation airborne_arg s0 =
     (case position of (p0, p1, p2) \<Rightarrow>
      case rotation of (r0, r1, r2) \<Rightarrow>
        let s = fold (\<lambda>i. assign_x i 0) [0..<12] s0;
            s = assign_x 0 p0 s;
            s = assign_x 2 p1 s;
            s = assign_x 4 p2 s;
            s = assign_x 6 r0 s;
            s = assign_x 8 r1 s;
            s = assign_x 10 r2 s
        in s\<lparr>airborne := airborne_arg\<rparr>)"

subsection \<open>\<open>update\<close>\<close>

text \<open>
  The twelve assignments of \<open>update\<close>, in the order of the source. Each right-hand side
  reads the vector as the preceding assignments left it. The parameter \<open>dt\<close> occurs in
  no statement of the body.
\<close>

definition update :: "vehicle \<Rightarrow> real \<Rightarrow> MultirotorDynamics \<Rightarrow> MultirotorDynamics" where
  "update v dt s0 =
     (let s1 = assign_x 0 (x s0 2) s0;
          s2 = assign_x 1
                 ((cos (x s1 7) * sin (x s1 9) * cos (x s1 11) + sin (x s1 7) * sin (x s1 11))
                    * U1 s1 / m v) s1;
          s3 = assign_x 2 (x s2 4) s2;
          s4 = assign_x 3
                 ((cos (x s3 7) * sin (x s3 9) * sin (x s3 11) + sin (x s3 7) * cos (x s3 11))
                    * U1 s3 / m v) s3;
          s5 = assign_x 4 (x s4 6) s4;
          s6 = assign_x 5 (- g + (cos (x s5 7) * cos (x s5 9)) * U1 s5 / m v) s5;
          s7 = assign_x 6 (x s6 8) s6;
          s8 = assign_x 7
                 (x s7 12 * x s7 10 * (Iy v - Iz v) / Ix v - Jr v / Ix v * x s7 10 * Omega s7
                    + l v / Ix v * U2 s7) s7;
          s9 = assign_x 8 (x s8 10) s8;
          s10 = assign_x 9
                 (x s9 12 * x s9 8 * (Iz v - Ix v) / Iy v + Jr v / Iy v * x s9 8 * Omega s9
                    + l v / Iy v * U3 s9) s9;
          s11 = assign_x 10 (x s10 12) s10;
          s12 = assign_x 11 (x s11 10 * x s11 8 * (Ix v - Iy v) / Iz v + l v / Iz v * U4 s11) s11
      in s12)"

subsection \<open>\<open>setMotors\<close>\<close>

text \<open>
  \<open>setMotors\<close> receives a bare pointer and validates nothing. Its two loops run over
  \<open>i < _nmotors\<close>, reading \<open>motorvals[i]\<close> and writing \<open>_omegas[i]\<close>. Where
  \<open>_nmotors\<close> exceeds the caller's array or the allocated buffer, the C++ reads or writes
  out of bounds, which is undefined; the model reports that as the fault
  \<open>OutOfBounds\<close> for the whole call. In every other case the call succeeds.
\<close>

datatype fault = OutOfBounds

text \<open>The body of the first loop: convert to radians per second, accumulate \<open>_U1\<close>.\<close>

definition convert_step :: "vehicle \<Rightarrow> real list \<Rightarrow> nat \<Rightarrow> MultirotorDynamics \<Rightarrow> MultirotorDynamics" where
  "convert_step v motorvals i s =
     (let s = s\<lparr>omegas := (omegas s)[i := motorvals ! i * real (unat (maxrpm v)) * pi_c / 30]\<rparr>
      in s\<lparr>U1 := U1 s + omegas s ! i\<rparr>)"

text \<open>The body of the second loop: \<open>_omegas[i] *= _omegas[i]\<close>.\<close>

definition square_step :: "nat \<Rightarrow> MultirotorDynamics \<Rightarrow> MultirotorDynamics" where
  "square_step i s = s\<lparr>omegas := (omegas s)[i := omegas s ! i * omegas s ! i]\<rparr>"

definition setMotors :: "vehicle \<Rightarrow> real list \<Rightarrow> MultirotorDynamics \<Rightarrow> fault + MultirotorDynamics" where
  "setMotors v motorvals s0 =
     (if nat (nmotors s0) > length motorvals \<or> nat (nmotors s0) > length (omegas s0)
      then Inl OutOfBounds
      else
        let s = s0\<lparr>U1 := 0\<rparr>;
            s = fold (convert_step v motorvals) [0..<nat (nmotors s)] s;
            s = s\<lparr>U1 := U1 s * b v\<rparr>;
            s = s\<lparr>Omega := omega v (omegas s)\<rparr>;
            s = fold square_step [0..<nat (nmotors s)] s;
            s = s\<lparr>U2 := b v * u2 v (omegas s)\<rparr>;
            s = s\<lparr>U3 := b v * u3 v (omegas s)\<rparr>;
            s = s\<lparr>U4 := d v * u4 v (omegas s)\<rparr>
        in Inr s)"

subsection \<open>\<open>getState\<close>\<close>

text \<open>
  \<open>getState\<close> has four out-parameters and an empty body: the caller's four arrays
  come back as they went in, and the object is untouched.
\<close>

definition getState ::
  "vec3 \<Rightarrow> vec3 \<Rightarrow> vec3 \<Rightarrow> vec3 \<Rightarrow> MultirotorDynamics
     \<Rightarrow> (vec3 \<times> vec3 \<times> vec3 \<times> vec3) \<times> MultirotorDynamics" where
  "getState angularVelocity eulerAngles velocityXYZ positionXYZ s =
     ((angularVelocity, eulerAngles, velocityXYZ, positionXYZ), s)"

subsection \<open>Reference definitions that follow the specification\<close>

text \<open>
  The conversion of one command to radians per second, \<open>c * maxrpm * pi / 30\<close>, with \<open>pi\<close>
  the constant of the source.
\<close>

definition rad_per_sec :: "vehicle \<Rightarrow> real \<Rightarrow> real" where
  "rad_per_sec v c = c * real (unat (maxrpm v)) * pi_c / 30"

text \<open>
  The derivative law of the specification, every right-hand side read from one and the
  same state: the rate of each position and angle is the stored velocity or rate, and
  the accelerations are the rotated thrust, gravity and the rigid-body Euler equations
  (the pitch law with the axis permutation of the roll law: yaw rate times roll rate
  times \<open>(Iz - Ix) / Iy\<close>).
\<close>

definition derivative :: "vehicle \<Rightarrow> MultirotorDynamics \<Rightarrow> real list" where
  "derivative v s =
     [x s 2,
      (cos (x s 7) * sin (x s 9) * cos (x s 11) + sin (x s 7) * sin (x s 11)) * U1 s / m v,
      x s 4,
      (cos (x s 7) * sin (x s 9) * sin (x s 11) + sin (x s 7) * cos (x s 11)) * U1 s / m v,
      x s 6,
      - g + (cos (x s 7) * cos (x s 9)) * U1 s / m v,
      x s 8,
      x s 12 * x s 10 * (Iy v - Iz v) / Ix v - Jr v / Ix v * x s 10 * Omega s + l v / Ix v * U2 s,
      x s 10,
      x s 12 * x s 8 * (Iz v - Ix v) / Iy v + Jr v / Iy v * x s 8 * Omega s + l v / Iy v * U3 s,
      x s 12,
      x s 10 * x s 8 * (Ix v - Iy v) / Iz v + l v / Iz v * U4 s]"

text \<open>
  The step the specification asks for: \<open>state_next = state + derivative(state) * dt\<close>.
\<close>

definition euler_step :: "vehicle \<Rightarrow> real \<Rightarrow> MultirotorDynamics \<Rightarrow> MultirotorDynamics" where
  "euler_step v dt s =
     s\<lparr>x_vec := map2 (\<lambda>a a'. a + a' * dt) (x_vec s) (derivative v s)\<rparr>"

text \<open>
  The simultaneous assignment of the twelve right-hand sides, each read from the state
  at the start of the call, without the scaling by \<open>dt\<close>.
\<close>

definition update_simultaneous :: "vehicle \<Rightarrow> real \<Rightarrow> MultirotorDynamics \<Rightarrow> MultirotorDynamics" where
  "update_simultaneous v dt s = s\<lparr>x_vec := derivative v s\<rparr>"

subsection \<open>A driver for sequences of calls\<close>

text \<open>
  What a caller can do with an initialised engine: \<open>setMotors\<close>, \<open>update\<close> and
  \<open>getState\<close>, in any order. \<open>run\<close> performs the calls from left to right, stops at
  a fault, and collects what every \<open>getState\<close> hands back.
\<close>

type_synonym outputs = "vec3 \<times> vec3 \<times> vec3 \<times> vec3"

datatype call =
    SetMotors "real list"
  | Update real
  | GetState vec3 vec3 vec3 vec3

fun run :: "vehicle \<Rightarrow> call list \<Rightarrow> MultirotorDynamics \<Rightarrow> fault + (MultirotorDynamics \<times> outputs list)" where
  "run v [] s = Inr (s, [])"
| "run v (SetMotors c # cs) s =
     (case setMotors v c s of Inl e \<Rightarrow> Inl e | Inr s' \<Rightarrow> run v cs s')"
| "run v (Update dt # cs) s = run v cs (update v dt s)"
| "run v (GetState av ea vel pos # cs) s =
     (case getState av ea vel pos s of
        (out, s') \<Rightarrow> map_sum id (\<lambda>(sf, outs). (sf, out # outs)) (run v cs s'))"

text \<open>The state vector and the forces of an engine.\<close>

definition observable :: "MultirotorDynamics \<Rightarrow> real list \<times> real \<times> real \<times> real \<times> real \<times> real" where
  "observable s = (x_vec s, U1 s, U2 s, U3 s, U4 s, Omega s)"

definition observe ::
  "fault + (MultirotorDynamics \<times> outputs list)
     \<Rightarrow> fault + ((real list \<times> real \<times> real \<times> real \<times> real \<times> real) \<times> outputs list)" where
  "observe res = map_sum id (\<lambda>(s, outs). (observable s, outs)) res"

subsection \<open>A vehicle for concrete evaluation\<close>

text \<open>
  The constants are those of the parameter block of the repository's rocket frame
  (\<open>b = 5e-6\<close>, \<open>d = 2e-6\<close>, \<open>m = 1.38\<close>, \<open>l = 0.35\<close>, \<open>Ix = Iy = 2\<close>, \<open>Iz = 3\<close>,
  \<open>Jr = 38e-4\<close>, \<open>maxrpm = 15000\<close>). The source contains no subclass of
  \<open>MultirotorDynamics\<close>; the four mixers are sample signed sums over four motors.
\<close>

definition test_vehicle :: vehicle where
  "test_vehicle =
     \<lparr>b = 5 / 1000000, d = 2 / 1000000, m = 138 / 100, l = 35 / 100,
      Ix = 2, Iy = 2, Iz = 3, Jr = 38 / 10000, maxrpm = 15000,
      u2 = (\<lambda>o2. (o2 ! 1 + o2 ! 2) - (o2 ! 0 + o2 ! 3)),
      u3 = (\<lambda>o2. (o2 ! 1 + o2 ! 3) - (o2 ! 0 + o2 ! 2)),
      u4 = (\<lambda>o2. (o2 ! 0 + o2 ! 1) - (o2 ! 2 + o2 ! 3)),
      omega = (\<lambda>o1. (o1 ! 0 + o1 ! 1) - (o1 ! 2 + o1 ! 3))\<rparr>"

text \<open>
  A four-motor engine as the constructor leaves it when the indeterminate member
  \<open>_nmotors\<close> happens to hold the intended count 4 and the fresh buffer holds zeros.
\<close>

definition test_engine :: MultirotorDynamics where
  "test_engine = new_MultirotorDynamics 4 4 (\<lambda>_. 0)"

text \<open>The stored forces of an engine.\<close>

definition forces :: "MultirotorDynamics \<Rightarrow> real \<times> real \<times> real \<times> real \<times> real" where
  "forces s = (U1 s, U2 s, U3 s, U4 s, Omega s)"

section \<open>Auxiliary facts\<close>

subsection \<open>The state vector as an explicit list\<close>

lemma length_12_cases:
  assumes "length xs = 12"
  obtains a1 a2 a3 a4 a5 a6 a7 a8 a9 a10 a11 a12
  where "xs = [a1, a2, a3, a4, a5, a6, a7, a8, a9, a10, a11, a12]"
  using assms by (auto simp: length_Suc_conv eval_nat_numeral)

lemma upt_12: "[0..<12] = [0, 1, 2, 3, 4, 5, 6, 7, 8, 9, 10, 11::nat]"
  by code_simp

lemma init_explicit:
  assumes "length (x_vec s) = 12"
  shows "init (p0, p1, p2) (r0, r1, r2) a s =
           s\<lparr>x_vec := [p0, 0, p1, 0, p2, 0, r0, 0, r1, 0, r2, 0], airborne := a\<rparr>"
proof -
  from assms obtain a1 a2 a3 a4 a5 a6 a7 a8 a9 a10 a11 a12
    where "x_vec s = [a1, a2, a3, a4, a5, a6, a7, a8, a9, a10, a11, a12]"
    by (rule length_12_cases)
  then show ?thesis
    by (simp add: init_def Let_def assign_x_def upt_12)
qed

text \<open>
  What the twelve sequential assignments compute. The entries are named by their 1-based
  index. Slot 10 reads slot 8 after slot 8 has been overwritten, and slot 12 reads the
  overwritten slots 8 and 10.
\<close>

lemma update_explicit:
  assumes "x_vec s = [a1, a2, a3, a4, a5, a6, a7, a8, a9, a10, a11, a12]"
  shows "update v dt s =
    (let n8 = a12 * a10 * (Iy v - Iz v) / Ix v - Jr v / Ix v * a10 * Omega s + l v / Ix v * U2 s;
         n10 = a12 * n8 * (Iz v - Ix v) / Iy v + Jr v / Iy v * n8 * Omega s + l v / Iy v * U3 s;
         n12 = n10 * n8 * (Ix v - Iy v) / Iz v + l v / Iz v * U4 s
     in s\<lparr>x_vec :=
          [a2,
           (cos a7 * sin a9 * cos a11 + sin a7 * sin a11) * U1 s / m v,
           a4,
           (cos a7 * sin a9 * sin a11 + sin a7 * cos a11) * U1 s / m v,
           a6,
           - g + (cos a7 * cos a9) * U1 s / m v,
           a8, n8, a10, n10, a12, n12]\<rparr>)"
  using assms
  by (simp add: update_def Let_def x_def assign_x_def)

lemma derivative_explicit:
  assumes "x_vec s = [a1, a2, a3, a4, a5, a6, a7, a8, a9, a10, a11, a12]"
  shows "derivative v s =
          [a2,
           (cos a7 * sin a9 * cos a11 + sin a7 * sin a11) * U1 s / m v,
           a4,
           (cos a7 * sin a9 * sin a11 + sin a7 * cos a11) * U1 s / m v,
           a6,
           - g + (cos a7 * cos a9) * U1 s / m v,
           a8,
           a12 * a10 * (Iy v - Iz v) / Ix v - Jr v / Ix v * a10 * Omega s + l v / Ix v * U2 s,
           a10,
           a12 * a8 * (Iz v - Ix v) / Iy v + Jr v / Iy v * a8 * Omega s + l v / Iy v * U3 s,
           a12,
           a10 * a8 * (Ix v - Iy v) / Iz v + l v / Iz v * U4 s]"
  using assms
  by (simp add: derivative_def x_def)

subsection \<open>Frame facts\<close>

lemma assign_x_frame:
  "nmotors (assign_x i e s) = nmotors s"
  "omegas (assign_x i e s) = omegas s"
  "airborne (assign_x i e s) = airborne s"
  "U1 (assign_x i e s) = U1 s"
  "U2 (assign_x i e s) = U2 s"
  "U3 (assign_x i e s) = U3 s"
  "U4 (assign_x i e s) = U4 s"
  "Omega (assign_x i e s) = Omega s"
  "length (x_vec (assign_x i e s)) = length (x_vec s)"
  by (simp_all add: assign_x_def)

lemma update_frame:
  "nmotors (update v dt s) = nmotors s"
  "omegas (update v dt s) = omegas s"
  "airborne (update v dt s) = airborne s"
  "U1 (update v dt s) = U1 s"
  "U2 (update v dt s) = U2 s"
  "U3 (update v dt s) = U3 s"
  "U4 (update v dt s) = U4 s"
  "Omega (update v dt s) = Omega s"
  "length (x_vec (update v dt s)) = length (x_vec s)"
  by (simp_all add: update_def Let_def x_def assign_x_def)

lemma update_ignores_dt: "update v dt s = update v dt' s"
  unfolding update_def by (rule refl)

lemma fold_assign_x_frame:
  "nmotors (fold (\<lambda>i. assign_x i e) is s) = nmotors s"
  "omegas (fold (\<lambda>i. assign_x i e) is s) = omegas s"
  "U1 (fold (\<lambda>i. assign_x i e) is s) = U1 s"
  "U2 (fold (\<lambda>i. assign_x i e) is s) = U2 s"
  "U3 (fold (\<lambda>i. assign_x i e) is s) = U3 s"
  "U4 (fold (\<lambda>i. assign_x i e) is s) = U4 s"
  "Omega (fold (\<lambda>i. assign_x i e) is s) = Omega s"
  "length (x_vec (fold (\<lambda>i. assign_x i e) is s)) = length (x_vec s)"
  by (induction "is" arbitrary: s; simp add: assign_x_frame)+

lemma init_frame:
  "nmotors (init p r a s) = nmotors s"
  "omegas (init p r a s) = omegas s"
  "U1 (init p r a s) = U1 s"
  "U2 (init p r a s) = U2 s"
  "U3 (init p r a s) = U3 s"
  "U4 (init p r a s) = U4 s"
  "Omega (init p r a s) = Omega s"
  "length (x_vec (init p r a s)) = length (x_vec s)"
  "airborne (init p r a s) = a"
  by (simp_all add: init_def Let_def assign_x_frame fold_assign_x_frame split: prod.splits)

subsection \<open>The two loops of \<open>setMotors\<close>\<close>

lemma convert_step_alt:
  "convert_step v cs i s =
     s\<lparr>omegas := (omegas s)[i := rad_per_sec v (cs ! i)],
       U1 := U1 s + (omegas s)[i := rad_per_sec v (cs ! i)] ! i\<rparr>"
  by (simp add: convert_step_def Let_def rad_per_sec_def)

lemma convert_loop:
  assumes "n \<le> length cs" and "n \<le> length (omegas s)"
  shows "fold (convert_step v cs) [0..<n] s =
           s\<lparr>omegas := map (rad_per_sec v) (take n cs) @ drop n (omegas s),
             U1 := U1 s + sum_list (map (rad_per_sec v) (take n cs))\<rparr>"
  using assms
proof (induction n)
  case 0
  then show ?case by simp
next
  case (Suc n)
  then have n: "n < length cs" "n < length (omegas s)"
    by simp_all
  have upd: "(map (rad_per_sec v) (take n cs) @ drop n (omegas s))[n := e]
      = map (rad_per_sec v) (take n cs) @ e # drop (Suc n) (omegas s)" for e
    using n by (simp add: list_update_append Cons_nth_drop_Suc [symmetric])
  have nth: "(map (rad_per_sec v) (take n cs) @ e # ys) ! n = e" for e ys
    using n by (simp add: nth_append)
  show ?case
    using Suc.IH n
    by (simp add: convert_step_alt upd nth take_Suc_conv_app_nth add.assoc)
qed

lemma square_loop:
  assumes "n \<le> length (omegas s)"
  shows "fold square_step [0..<n] s =
           s\<lparr>omegas := map (\<lambda>w. w * w) (take n (omegas s)) @ drop n (omegas s)\<rparr>"
  using assms
proof (induction n)
  case 0
  then show ?case by simp
next
  case (Suc n)
  then have n: "n < length (omegas s)"
    by simp
  have upd: "(map (\<lambda>w. w * w) (take n (omegas s)) @ drop n (omegas s))[n := e]
      = map (\<lambda>w. w * w) (take n (omegas s)) @ e # drop (Suc n) (omegas s)" for e
    using n by (simp add: list_update_append Cons_nth_drop_Suc [symmetric])
  have nth: "(map (\<lambda>w. w * w) (take n (omegas s)) @ drop n (omegas s)) ! n = omegas s ! n"
    using n by (simp add: nth_append)
  show ?case
    using Suc.IH n
    by (simp add: square_step_def upd nth take_Suc_conv_app_nth)
qed

text \<open>
  \<open>setMotors\<close> in closed form: with \<open>n = _nmotors\<close> inside both arrays, the first \<open>n\<close>
  commands are converted, the buffer beyond \<open>n\<close> is left as it was, and the mixers see
  the whole buffer.
\<close>

lemma setMotors_explicit:
  assumes "nat (nmotors s) \<le> length cs" and "nat (nmotors s) \<le> length (omegas s)"
  shows "setMotors v cs s =
    (let n = nat (nmotors s);
         w = map (rad_per_sec v) (take n cs);
         w2 = map (\<lambda>a. a * a) w;
         rest = drop n (omegas s)
     in Inr (s\<lparr>omegas := w2 @ rest,
               U1 := sum_list w * b v,
               Omega := omega v (w @ rest),
               U2 := b v * u2 v (w2 @ rest),
               U3 := b v * u3 v (w2 @ rest),
               U4 := d v * u4 v (w2 @ rest)\<rparr>))"
  using assms
  by (simp add: setMotors_def Let_def convert_loop square_loop)

lemma setMotors_fault:
  assumes "nat (nmotors s) > length cs \<or> nat (nmotors s) > length (omegas s)"
  shows "setMotors v cs s = Inl OutOfBounds"
  using assms by (simp add: setMotors_def)

lemma setMotors_frame:
  assumes "setMotors v cs s = Inr s'"
  shows "x_vec s' = x_vec s" and "nmotors s' = nmotors s" and "airborne s' = airborne s"
    and "length (omegas s') = length (omegas s)"
proof -
  from assms have ok: "nat (nmotors s) \<le> length cs" "nat (nmotors s) \<le> length (omegas s)"
    by (auto simp: setMotors_def split: if_splits)
  from assms setMotors_explicit [OF ok, of v]
  show "x_vec s' = x_vec s" and "nmotors s' = nmotors s" and "airborne s' = airborne s"
    and "length (omegas s') = length (omegas s)"
    using ok by (auto simp: Let_def)
qed

text \<open>
  No operation writes the member \<open>_nmotors\<close> or changes the size of the buffer: the
  motor count an engine has is the one construction left it with.
\<close>

lemma motor_count_preserved:
  "nmotors (init p r a s) = nmotors s \<and> length (omegas (init p r a s)) = length (omegas s)"
  "nmotors (update v dt s) = nmotors s \<and> length (omegas (update v dt s)) = length (omegas s)"
  "setMotors v cs s = Inr s' \<Longrightarrow> nmotors s' = nmotors s \<and> length (omegas s') = length (omegas s)"
  "snd (getState av ea vel pos s) = s"
  by (simp_all add: init_frame update_frame setMotors_frame getState_def)

subsection \<open>Concrete engines\<close>

lemma test_engine_explicit:
  "test_engine =
     \<lparr>x_vec = [0, 0, 0, 0, 0, 0, 0, 0, 0, 0, 0, 0], nmotors = 4, omegas = [0, 0, 0, 0],
      airborne = False, U1 = 0, U2 = 0, U3 = 0, U4 = 0, Omega = 0\<rparr>"
  by (simp add: test_engine_def new_MultirotorDynamics_def eval_nat_numeral)

lemma test_vehicle_simps:
  "b test_vehicle = 5 / 1000000" "d test_vehicle = 2 / 1000000"
  "m test_vehicle = 138 / 100" "l test_vehicle = 35 / 100"
  "Ix test_vehicle = 2" "Iy test_vehicle = 2" "Iz test_vehicle = 3"
  "Jr test_vehicle = 38 / 10000" "maxrpm test_vehicle = 15000"
  "u2 test_vehicle o2 = (o2 ! 1 + o2 ! 2) - (o2 ! 0 + o2 ! 3)"
  "u3 test_vehicle o2 = (o2 ! 1 + o2 ! 3) - (o2 ! 0 + o2 ! 2)"
  "u4 test_vehicle o2 = (o2 ! 0 + o2 ! 1) - (o2 ! 2 + o2 ! 3)"
  "omega test_vehicle o2 = (o2 ! 0 + o2 ! 1) - (o2 ! 2 + o2 ! 3)"
  by (simp_all add: test_vehicle_def)

lemma rad_per_sec_test_vehicle: "rad_per_sec test_vehicle c = c * (314159 / 200)"
  by (simp add: rad_per_sec_def test_vehicle_simps pi_c_def)

section \<open>The claims\<close>

text \<open>
  C8. \<open>init\<close> is idempotent, and the state vector it leaves is the pose in the six
  position and angle slots and zero in the six velocity and rate slots, whatever the
  state before (the twelve-entry vector is the array \<open>_x[12]\<close>).
\<close>

theorem init_idempotent:
  assumes "length (x_vec s) = 12"
  shows "init (p0, p1, p2) (r0, r1, r2) a (init (p0, p1, p2) (r0, r1, r2) a s)
           = init (p0, p1, p2) (r0, r1, r2) a s
       \<and> x_vec (init (p0, p1, p2) (r0, r1, r2) a s)
           = [p0, 0, p1, 0, p2, 0, r0, 0, r1, 0, r2, 0]"
proof -
  have "length (x_vec (init (p0, p1, p2) (r0, r1, r2) a s)) = 12"
    using assms by (simp add: init_frame)
  then have "init (p0, p1, p2) (r0, r1, r2) a (init (p0, p1, p2) (r0, r1, r2) a s)
      = (init (p0, p1, p2) (r0, r1, r2) a s)
          \<lparr>x_vec := [p0, 0, p1, 0, p2, 0, r0, 0, r1, 0, r2, 0], airborne := a\<rparr>"
    by (rule init_explicit)
  then show ?thesis
    using assms by (simp add: init_explicit)
qed

theorem init_idempotent_witness:
  "length (x_vec (update test_vehicle (1 / 100) test_engine)) = 12
   \<and> init (1, 2, 3) (4, 5, 6) True
        (init (1, 2, 3) (4, 5, 6) True (update test_vehicle (1 / 100) test_engine))
      = init (1, 2, 3) (4, 5, 6) True (update test_vehicle (1 / 100) test_engine)
   \<and> x_vec (init (1, 2, 3) (4, 5, 6) True (update test_vehicle (1 / 100) test_engine))
      = [1, 0, 2, 0, 3, 0, 4, 0, 5, 0, 6, 0]"
proof -
  have h: "length (x_vec (update test_vehicle (1 / 100) test_engine)) = 12"
    by (simp add: update_frame test_engine_explicit)
  show ?thesis
    using h init_idempotent [OF h, of 1 2 3 4 5 6 True] by simp
qed

text \<open>
  C2. \<open>getState\<close> has an empty body. After \<open>init\<close> with position \<open>(1, 2, 3)\<close> and
  rotation \<open>(0.1, 0.2, 0.3)\<close> the state vector holds the pose, yet \<open>getState\<close> hands
  the caller's four arrays back as they were passed in (here zeros) and leaves the
  engine as it was.
\<close>

theorem getState_populates_nothing:
  "x_vec (init (1, 2, 3) (1 / 10, 2 / 10, 3 / 10) False test_engine)
     = [1, 0, 2, 0, 3, 0, 1 / 10, 0, 2 / 10, 0, 3 / 10, 0]
   \<and> getState (0, 0, 0) (0, 0, 0) (0, 0, 0) (0, 0, 0)
        (init (1, 2, 3) (1 / 10, 2 / 10, 3 / 10) False test_engine)
     = (((0, 0, 0), (0, 0, 0), (0, 0, 0), (0, 0, 0)),
        init (1, 2, 3) (1 / 10, 2 / 10, 3 / 10) False test_engine)"
  by (simp add: getState_def init_explicit test_engine_explicit)

text \<open>
  C7. The constructor allocates the buffer and stores no motor count. Constructed for
  four motors over memory that holds zero, the engine has \<open>_nmotors = 0\<close> beside a
  buffer of four entries, and \<open>setMotors\<close> with four full-throttle commands reads no
  command at all: it leaves the engine as it was, with zero thrust.
\<close>

theorem constructor_stores_no_motor_count:
  "nmotors (new_MultirotorDynamics 4 0 (\<lambda>_. 0)) = 0
   \<and> length (omegas (new_MultirotorDynamics 4 0 (\<lambda>_. 0))) = 4
   \<and> setMotors test_vehicle [1, 1, 1, 1] (new_MultirotorDynamics 4 0 (\<lambda>_. 0))
       = Inr (new_MultirotorDynamics 4 0 (\<lambda>_. 0))"
  by (simp add: setMotors_explicit Let_def new_MultirotorDynamics_def test_vehicle_simps
      eval_nat_numeral)

text \<open>
  C1. \<open>update\<close> overwrites each slot with the right-hand side of its law and never
  uses \<open>dt\<close>. From the pose \<open>(1, 2, 3)\<close> at rest with zero forces and \<open>dt = 0.5\<close>,
  the code leaves position \<open>(0, 0, 0)\<close> and vertical velocity \<open>- g\<close>; the step
  \<open>state + derivative(state) * dt\<close> keeps the position \<open>(1, 2, 3)\<close> and gives the
  vertical velocity \<open>- g / 2\<close>.
\<close>

theorem update_is_not_euler_step:
  "x_vec (update test_vehicle (1 / 2) (init (1, 2, 3) (0, 0, 0) False test_engine))
     = [0, 0, 0, 0, 0, - g, 0, 0, 0, 0, 0, 0]
   \<and> x_vec (euler_step test_vehicle (1 / 2) (init (1, 2, 3) (0, 0, 0) False test_engine))
     = [1, 0, 2, 0, 3, - g / 2, 0, 0, 0, 0, 0, 0]"
proof -
  have s: "init (1, 2, 3) (0, 0, 0) False test_engine
      = \<lparr>x_vec = [1, 0, 2, 0, 3, 0, 0, 0, 0, 0, 0, 0], nmotors = 4, omegas = [0, 0, 0, 0],
         airborne = False, U1 = 0, U2 = 0, U3 = 0, U4 = 0, Omega = 0\<rparr>"
    by (simp add: init_explicit test_engine_explicit)
  have x: "x_vec (init (1, 2, 3) (0, 0, 0) False test_engine)
      = [1, 0, 2, 0, 3, 0, 0, 0, 0, 0, 0, 0]"
    by (simp add: s)
  have u: "x_vec (update test_vehicle (1 / 2) (init (1, 2, 3) (0, 0, 0) False test_engine))
      = [0, 0, 0, 0, 0, - g, 0, 0, 0, 0, 0, 0]"
    by (simp add: update_explicit [OF x] Let_def) (simp add: s)
  have e: "x_vec (euler_step test_vehicle (1 / 2) (init (1, 2, 3) (0, 0, 0) False test_engine))
      = [1, 0, 2, 0, 3, - g / 2, 0, 0, 0, 0, 0, 0]"
    by (simp add: euler_step_def derivative_explicit [OF x]) (simp add: s)
  from u e show ?thesis by simp
qed

text \<open>
  C6. Grounded at the pose \<open>(1, 2, 3)\<close>, after \<open>setMotors\<close> with four zero commands,
  one \<open>update\<close> with \<open>dt = 0.01\<close> leaves the vertical velocity \<open>- 9.80665\<close>, not
  \<open>- 0.0980665\<close>, and the horizontal position \<open>(0, 0)\<close>, not \<open>(1, 2)\<close>.
\<close>

theorem zero_thrust_step:
  "map_sum id (\<lambda>s. x_vec (update test_vehicle (1 / 100) s))
     (setMotors test_vehicle [0, 0, 0, 0] (init (1, 2, 3) (0, 0, 0) False test_engine))
     = Inr [0, 0, 0, 0, 0, - (980665 / 100000), 0, 0, 0, 0, 0, 0]"
proof -
  have s: "init (1, 2, 3) (0, 0, 0) False test_engine
      = \<lparr>x_vec = [1, 0, 2, 0, 3, 0, 0, 0, 0, 0, 0, 0], nmotors = 4, omegas = [0, 0, 0, 0],
         airborne = False, U1 = 0, U2 = 0, U3 = 0, U4 = 0, Omega = 0\<rparr>"
    by (simp add: init_explicit test_engine_explicit)
  have m: "setMotors test_vehicle [0, 0, 0, 0] (init (1, 2, 3) (0, 0, 0) False test_engine)
      = Inr (init (1, 2, 3) (0, 0, 0) False test_engine)"
    by (simp add: s setMotors_explicit Let_def rad_per_sec_test_vehicle test_vehicle_simps)
  have x: "x_vec (init (1, 2, 3) (0, 0, 0) False test_engine)
      = [1, 0, 2, 0, 3, 0, 0, 0, 0, 0, 0, 0]"
    by (simp add: s)
  have u: "x_vec (update test_vehicle (1 / 100) (init (1, 2, 3) (0, 0, 0) False test_engine))
      = [0, 0, 0, 0, 0, - (980665 / 100000), 0, 0, 0, 0, 0, 0]"
    by (simp add: update_explicit [OF x] Let_def g_def) (simp add: s)
  from m u show ?thesis by simp
qed

text \<open>
  C4. The assignments run in sequence on the one array, so the pitch law, which writes
  \<open>_x[9]\<close>, reads the roll rate \<open>x(8)\<close> after the roll law has overwritten it.
  From rest at the origin, after \<open>setMotors\<close> with the commands \<open>(0, 1, 0, 0)\<close>,
  the code leaves \<open>8.60...\<close> in \<open>_x[9]\<close> where the simultaneous assignment from
  the state at the start of the call gives \<open>2.15...\<close>.
\<close>

theorem update_reads_overwritten_slot:
  "map_sum id (\<lambda>s. (x_vec (update test_vehicle (1 / 100) s) ! 9,
                     x_vec (update_simultaneous test_vehicle (1 / 100) s) ! 9))
     (setMotors test_vehicle [0, 1, 0, 0] (init (0, 0, 0) (0, 0, 0) False test_engine))
     = Inr (5505566630659983307 / 640000000000000000, 690871140967 / 320000000000)"
proof -
  have s: "init (0, 0, 0) (0, 0, 0) False test_engine
      = \<lparr>x_vec = [0, 0, 0, 0, 0, 0, 0, 0, 0, 0, 0, 0], nmotors = 4, omegas = [0, 0, 0, 0],
         airborne = False, U1 = 0, U2 = 0, U3 = 0, U4 = 0, Omega = 0\<rparr>"
    by (simp add: init_explicit test_engine_explicit)
  define s' where "s' =
       \<lparr>x_vec = [0, 0, 0, 0, 0, 0, 0, 0, 0, 0, 0, 0::real], nmotors = 4,
        omegas = [0, 98695877281 / 40000, 0, 0],
        airborne = False, U1 = 314159 / 40000000, U2 = 98695877281 / 8000000000,
        U3 = 98695877281 / 8000000000, U4 = 98695877281 / 20000000000,
        Omega = 314159 / 200\<rparr>"
  have m: "setMotors test_vehicle [0, 1, 0, 0] (init (0, 0, 0) (0, 0, 0) False test_engine)
      = Inr s'"
    by (simp add: s s'_def setMotors_explicit Let_def rad_per_sec_test_vehicle test_vehicle_simps)
  have x: "x_vec s' = [0, 0, 0, 0, 0, 0, 0, 0, 0, 0, 0, 0]"
    by (simp add: s'_def)
  have u: "x_vec (update test_vehicle (1 / 100) s') ! 9
      = 5505566630659983307 / 640000000000000000"
    by (simp add: update_explicit [OF x] Let_def test_vehicle_simps) (simp add: s'_def)
  have r: "x_vec (update_simultaneous test_vehicle (1 / 100) s') ! 9
      = 690871140967 / 320000000000"
    by (simp add: update_simultaneous_def derivative_explicit [OF x] test_vehicle_simps)
      (simp add: s'_def)
  from m u r show ?thesis by simp
qed






text \<open>
  C10. \<open>setMotors\<close> writes the speed buffer and the five forces and nothing else, so
  the state vector is as it was; \<open>update\<close> writes the state vector and nothing else, so
  the five forces are as they were; \<open>init\<close> leaves the forces and \<open>getState\<close> leaves
  the whole engine as they were. So only \<open>setMotors\<close> writes the forces and only
  \<open>init\<close> and \<open>update\<close> write the state vector.
\<close>

theorem frame_conditions:
  "(setMotors v c s = Inr s' \<longrightarrow>
      x_vec s' = x_vec s
      \<and> s' = s\<lparr>omegas := omegas s', U1 := U1 s', U2 := U2 s', U3 := U3 s', U4 := U4 s',
                Omega := Omega s'\<rparr>)
   \<and> forces (update v dt s) = forces s
   \<and> update v dt s = s\<lparr>x_vec := x_vec (update v dt s)\<rparr>
   \<and> forces (init p r a s) = forces s
   \<and> snd (getState av ea vel pos s) = s"
proof -
  have "x_vec s' = x_vec s
      \<and> s' = s\<lparr>omegas := omegas s', U1 := U1 s', U2 := U2 s', U3 := U3 s', U4 := U4 s',
                Omega := Omega s'\<rparr>"
    if "setMotors v c s = Inr s'"
    using setMotors_frame [OF that]
    by (intro conjI MultirotorDynamics.equality) simp_all
  moreover have "update v dt s = s\<lparr>x_vec := x_vec (update v dt s)\<rparr>"
    by (rule MultirotorDynamics.equality) (simp_all add: update_frame)
  ultimately show ?thesis
    by (simp add: forces_def update_frame init_frame getState_def)
qed

theorem frame_conditions_witness:
  "setMotors test_vehicle [1, 0, 0, 1] test_engine
     = Inr (test_engine
         \<lparr>omegas := [98695877281 / 40000, 0, 0, 98695877281 / 40000],
          U1 := 314159 / 20000000, Omega := 0,
          U2 := - (98695877281 / 4000000000), U3 := 0, U4 := 0\<rparr>)
   \<and> x_vec (test_engine
         \<lparr>omegas := [98695877281 / 40000, 0, 0, 98695877281 / 40000],
          U1 := 314159 / 20000000, Omega := 0,
          U2 := - (98695877281 / 4000000000), U3 := 0, U4 := 0\<rparr>)
     = x_vec test_engine"
proof -
  have h: "setMotors test_vehicle [1, 0, 0, 1] test_engine
     = Inr (test_engine
         \<lparr>omegas := [98695877281 / 40000, 0, 0, 98695877281 / 40000],
          U1 := 314159 / 20000000, Omega := 0,
          U2 := - (98695877281 / 4000000000), U3 := 0, U4 := 0\<rparr>)"
    by (simp add: setMotors_explicit Let_def rad_per_sec_test_vehicle test_vehicle_simps
        test_engine_explicit)
  from frame_conditions [where v = test_vehicle and c = "[1, 0, 0, 1]" and s = test_engine
      and s' = "test_engine
         \<lparr>omegas := [98695877281 / 40000, 0, 0, 98695877281 / 40000],
          U1 := 314159 / 20000000, Omega := 0,
          U2 := - (98695877281 / 4000000000), U3 := 0, U4 := 0\<rparr>"]
  have "x_vec (test_engine
         \<lparr>omegas := [98695877281 / 40000, 0, 0, 98695877281 / 40000],
          U1 := 314159 / 20000000, Omega := 0,
          U2 := - (98695877281 / 4000000000), U3 := 0, U4 := 0\<rparr>)
     = x_vec test_engine"
    using h by blast
  with h show ?thesis
    by blast
qed

lemma setMotors_airborne:
  "setMotors v c (s\<lparr>airborne := a\<rparr>) = map_sum id (\<lambda>s'. s'\<lparr>airborne := a\<rparr>) (setMotors v c s)"
proof (cases "nat (nmotors s) \<le> length c \<and> nat (nmotors s) \<le> length (omegas s)")
  case True
  then show ?thesis
    by (simp add: setMotors_explicit Let_def)
next
  case False
  then show ?thesis
    by (auto simp: setMotors_def)
qed

lemma update_airborne:
  "update v dt (s\<lparr>airborne := a\<rparr>) = (update v dt s)\<lparr>airborne := a\<rparr>"
  by (simp add: update_def Let_def x_def assign_x_def)

lemma run_airborne:
  "run v calls (s\<lparr>airborne := a\<rparr>)
     = map_sum id (\<lambda>(sf, outs). (sf\<lparr>airborne := a\<rparr>, outs)) (run v calls s)"
proof (induction calls arbitrary: s)
  case Nil
  show ?case by simp
next
  case (Cons c calls)
  show ?case
  proof (cases c)
    case (SetMotors cs)
    then show ?thesis
      using Cons.IH by (cases "setMotors v cs s") (simp_all add: setMotors_airborne)
  next
    case (Update dt)
    then show ?thesis
      using Cons.IH by (simp add: update_airborne)
  next
    case (GetState av ea vel pos)
    then show ?thesis
      using Cons.IH [of s]
      by (cases "run v calls s") (auto simp: getState_def)
  qed
qed

lemma init_airborne:
  "init p r a1 s = (init p r a2 s)\<lparr>airborne := a1\<rparr>"
  by (simp add: init_def Let_def split: prod.splits)

lemma observe_airborne:
  "observe (map_sum id (\<lambda>(sf, outs). (sf\<lparr>airborne := a\<rparr>, outs)) res) = observe res"
  by (cases res) (auto simp: observe_def observable_def)

text \<open>
  C9. The flag that \<open>init\<close> stores is read by no operation: two runs that start from
  the same engine, call \<open>init\<close> with the same pose and different flags, and then perform
  the same calls, both fault or both end with the same state vector, the same forces
  and the same \<open>getState\<close> outputs.
\<close>

theorem airborne_flag_unobservable:
  "observe (run v calls (init p r a1 s)) = observe (run v calls (init p r a2 s))"
proof -
  have "run v calls (init p r a1 s)
      = map_sum id (\<lambda>(sf, outs). (sf\<lparr>airborne := a1\<rparr>, outs)) (run v calls (init p r a2 s))"
    using init_airborne [where ?a1.0 = a1 and ?a2.0 = a2] run_airborne [where s = "init p r a2 s" and a = a1]
    by simp
  then show ?thesis
    by (simp add: observe_airborne)
qed

end
